theory Spec2Isabelle
  imports Complex_Main
begin

section \<open>Differentiable discrete distributions (agent\_torch/core/distributions)\<close>

text \<open>
  The module defines five \<^verbatim>\<open>torch.autograd.Function\<close> classes, each a pair of static
  methods \<^verbatim>\<open>forward\<close> and \<^verbatim>\<open>backward\<close> that communicate through
  \<^verbatim>\<open>ctx.save_for_backward\<close> / \<^verbatim>\<open>ctx.saved_tensors\<close>.

  Modelling decisions.
  \<^item> A tensor is the list of its elements (a one-dimensional view); a zero-dimensional
    tensor is a list of length one. Elements are real numbers: rounding, signed zeros,
    infinities and NaN of IEEE arithmetic are outside the model, so a quotient whose
    divisor is zero has HOL's value and not \<^verbatim>\<open>inf\<close> or \<^verbatim>\<open>nan\<close>.
  \<^item> A binary elementwise operation on two tensors follows the broadcasting rule of
    one-dimensional shapes: equal lengths combine pointwise, a length of one is stretched,
    and any other pair of lengths raises \<^verbatim>\<open>RuntimeError\<close>.
  \<^item> The saved context is a record of the saved tensors, in the order of the call to
    \<^verbatim>\<open>save_for_backward\<close>.
  \<^item> Randomness is an explicit argument of \<^verbatim>\<open>forward\<close>: the samplers
    \<^verbatim>\<open>torch.bernoulli\<close> and \<^verbatim>\<open>Binomial(n, p).sample\<close> are passed in as functions
    (the sampler at the current state of the generator), and \<^verbatim>\<open>torch.rand\<close> reads a
    stream of uniform draws.
  \<^item> For the question whether a method reads the generator, the bodies are also given as
    computations that receive the generator's state and return the state they leave.
\<close>

subsection \<open>Tensors, errors, broadcasting\<close>

type_synonym tensor = "real list"

datatype error = RuntimeError | IndexError

definition bind_err :: "error + 'a \<Rightarrow> ('a \<Rightarrow> error + 'b) \<Rightarrow> error + 'b" where
  "bind_err m f = (case m of Inl e \<Rightarrow> Inl e | Inr v \<Rightarrow> f v)"

definition broadcast2 :: "('a \<Rightarrow> 'b \<Rightarrow> 'c) \<Rightarrow> 'a list \<Rightarrow> 'b list \<Rightarrow> error + 'c list" where
  "broadcast2 f xs ys =
     (if length xs = length ys then Inr (map2 f xs ys)
      else if length xs = 1 then Inr (map (f (hd xs)) ys)
      else if length ys = 1 then Inr (map (\<lambda>x. f x (hd ys)) xs)
      else Inl RuntimeError)"

definition t_add :: "tensor \<Rightarrow> tensor \<Rightarrow> error + tensor" where
  "t_add = broadcast2 (\<lambda>x y. x + y)"

definition t_sub :: "tensor \<Rightarrow> tensor \<Rightarrow> error + tensor" where
  "t_sub = broadcast2 (\<lambda>x y. x - y)"

definition t_mul :: "tensor \<Rightarrow> tensor \<Rightarrow> error + tensor" where
  "t_mul = broadcast2 (\<lambda>x y. x * y)"

definition t_div :: "tensor \<Rightarrow> tensor \<Rightarrow> error + tensor" where
  "t_div = broadcast2 (\<lambda>x y. x / y)"

text \<open>\<^verbatim>\<open>torch.where(cond, a, b)\<close> with two tensor branches: all three are broadcast together.\<close>

definition torch_where :: "bool list \<Rightarrow> tensor \<Rightarrow> tensor \<Rightarrow> error + tensor" where
  "torch_where c a b =
     bind_err (broadcast2 Pair c a)
       (\<lambda>ca. broadcast2 (\<lambda>ca y. if fst ca then snd ca else y) ca b)"

text \<open>\<^verbatim>\<open>torch.where(cond, a, s)\<close> with a Python scalar \<^verbatim>\<open>s\<close> as the second branch.\<close>

definition torch_where_scalar :: "bool list \<Rightarrow> tensor \<Rightarrow> real \<Rightarrow> error + tensor" where
  "torch_where_scalar c a s = broadcast2 (\<lambda>b x. if b then x else s) c a"

definition ones :: "nat \<Rightarrow> tensor" where
  "ones n = replicate n 1"

definition zeros_like :: "tensor \<Rightarrow> tensor" where
  "zeros_like t = replicate (length t) 0"

text \<open>\<^verbatim>\<open>torch.clamp(x, min=lo, max=hi)\<close> on one element: \<^verbatim>\<open>min(max(x, lo), hi)\<close>.\<close>

definition clamp :: "real \<Rightarrow> real \<Rightarrow> real \<Rightarrow> real" where
  "clamp lo hi x = min (max x lo) hi"

text \<open>\<^verbatim>\<open>torch.rand(shape)\<close>: the first \<open>n\<close> values of the stream of uniform draws.\<close>

definition torch_rand :: "(nat \<Rightarrow> real) \<Rightarrow> nat \<Rightarrow> tensor" where
  "torch_rand draws n = map draws [0..<n]"

text \<open>\<^verbatim>\<open>torch.cumsum(probs, dim=0)\<close>, as a running sum.\<close>

fun cumsum_from :: "real \<Rightarrow> tensor \<Rightarrow> tensor" where
  "cumsum_from acc [] = []"
| "cumsum_from acc (x # xs) = (acc + x) # cumsum_from (acc + x) xs"

definition cumsum :: "tensor \<Rightarrow> tensor" where
  "cumsum xs = cumsum_from 0 xs"

text \<open>
  \<^verbatim>\<open>torch.searchsorted(cum_probs, u)\<close> with the default \<^verbatim>\<open>right=False\<close>: the first index
  \<open>i\<close> with \<open>u \<le> cum_probs[i]\<close>, and the length of the sequence when there is none
  (the source's comment: ``Find the first index where u <= cumulative probability'').
\<close>

definition searchsorted :: "tensor \<Rightarrow> real \<Rightarrow> nat" where
  "searchsorted cs u = length (takeWhile (\<lambda>c. \<not> u \<le> c) cs)"

subsection \<open>Saved contexts\<close>

text \<open>\<^verbatim>\<open>ctx.save_for_backward(result, p)\<close>: both Bernoulli operators and Geometric.\<close>

record ctx =
  saved_result :: tensor
  saved_p :: tensor

text \<open>\<^verbatim>\<open>ctx.save_for_backward(result, p, n)\<close>: Binomial.\<close>

record binomial_ctx =
  bsaved_result :: tensor
  bsaved_p :: tensor
  bsaved_n :: tensor

text \<open>\<^verbatim>\<open>ctx.save_for_backward(probs, torch.tensor(idx_int))\<close>: StochasticCategorical.
  The index is the count returned by \<^verbatim>\<open>searchsorted\<close>, a natural number.\<close>

record cat_ctx =
  saved_probs :: tensor
  saved_idx :: nat

subsection \<open>StraightThroughBernoulli\<close>

definition StraightThroughBernoulli_forward ::
    "(tensor \<Rightarrow> tensor) \<Rightarrow> tensor \<Rightarrow> tensor \<times> ctx" where
  "StraightThroughBernoulli_forward bernoulli p =
     (let result = bernoulli p
      in (result, \<lparr>saved_result = result, saved_p = p\<rparr>))"

definition StraightThroughBernoulli_backward :: "ctx \<Rightarrow> tensor \<Rightarrow> error + tensor" where
  "StraightThroughBernoulli_backward c grad_output =
     (let result = saved_result c;
          ws = ones (length result)
      in t_mul grad_output ws)"

subsection \<open>Bernoulli (weighted jump)\<close>

definition Bernoulli_forward :: "(tensor \<Rightarrow> tensor) \<Rightarrow> tensor \<Rightarrow> tensor \<times> ctx" where
  "Bernoulli_forward bernoulli p =
     (let result = bernoulli p
      in (result, \<lparr>saved_result = result, saved_p = p\<rparr>))"

definition Bernoulli_backward :: "ctx \<Rightarrow> tensor \<Rightarrow> error + tensor" where
  "Bernoulli_backward c grad_output =
     (let result = saved_result c; p = saved_p c;
          w_minus = map (\<lambda>x. (1 / x) / 2) p;
          w_plus = map (\<lambda>x. (1 / (1 - x)) / 2) p
      in bind_err (torch_where (map (\<lambda>r. r = 1) result) w_minus w_plus)
           (\<lambda>ws. t_mul grad_output ws))"

subsection \<open>Binomial\<close>

definition Binomial_forward ::
    "(tensor \<Rightarrow> tensor \<Rightarrow> tensor) \<Rightarrow> tensor \<Rightarrow> tensor \<Rightarrow> tensor \<times> binomial_ctx" where
  "Binomial_forward sample n p =
     (let result = sample n p
      in (result, \<lparr>bsaved_result = result, bsaved_p = p, bsaved_n = n\<rparr>))"

text \<open>The pair returned is (gradient for \<open>n\<close>, gradient for \<open>p\<close>); Python's \<^verbatim>\<open>None\<close>
  is \<open>None\<close>.\<close>

definition Binomial_backward ::
    "binomial_ctx \<Rightarrow> tensor \<Rightarrow> error + (tensor option \<times> tensor)" where
  "Binomial_backward c grad_output =
     (let result = bsaved_result c; p = bsaved_p c; n = bsaved_n c
      in bind_err (t_div result p) (\<lambda>w_minus.
         bind_err (t_sub n result) (\<lambda>n_minus_result.
         bind_err (t_div n_minus_result (map (\<lambda>x. 1 - x) p)) (\<lambda>w_plus.
         bind_err (torch_where_scalar (map (\<lambda>r. r > 0) result) w_minus 0) (\<lambda>wminus_cont.
         bind_err (broadcast2 (\<lambda>r m. r < m) result n) (\<lambda>result_lt_n.
         bind_err (torch_where_scalar result_lt_n w_plus 0) (\<lambda>wplus_cont.
         bind_err (t_add wminus_cont wplus_cont) (\<lambda>s.
         bind_err (t_mul grad_output (map (\<lambda>x. x / 2) s)) (\<lambda>grad_p.
         Inr (None, grad_p))))))))))"

subsection \<open>Geometric\<close>

definition Geometric_forward :: "(nat \<Rightarrow> real) \<Rightarrow> tensor \<Rightarrow> error + (tensor \<times> ctx)" where
  "Geometric_forward draws p0 =
     (let p = map (clamp (1 / 100000) (1 - 1 / 100000)) p0;
          u = torch_rand draws (length p)
      in bind_err (t_div (map (\<lambda>x. ln (1 - x)) u) (map (\<lambda>x. ln (1 - x)) p)) (\<lambda>q.
         let result = map (\<lambda>x. real_of_int \<lceil>x\<rceil>) q
         in Inr (result, \<lparr>saved_result = result, saved_p = p\<rparr>)))"

text \<open>The two contributions of \<^verbatim>\<open>Geometric.backward\<close>, named as in the source.\<close>

definition Geometric_w_plus_cont :: "ctx \<Rightarrow> error + tensor" where
  "Geometric_w_plus_cont c =
     (let result = saved_result c; p = saved_p c;
          w_plus = map (\<lambda>x. 1 / x) p
      in torch_where (map (\<lambda>r. r > 0) result) w_plus (zeros_like w_plus))"

definition Geometric_w_minus_cont :: "ctx \<Rightarrow> error + tensor" where
  "Geometric_w_minus_cont c =
     (let result = saved_result c; p = saved_p c
      in bind_err (t_div (map (\<lambda>r. r - 1) result) (map (\<lambda>x. 1 - x) p)) (\<lambda>w_minus.
         torch_where (map (\<lambda>r. r > 1) result) w_minus (zeros_like w_minus)))"

definition Geometric_backward :: "ctx \<Rightarrow> tensor \<Rightarrow> error + tensor" where
  "Geometric_backward c grad_output =
     bind_err (Geometric_w_minus_cont c) (\<lambda>w_minus_cont.
     bind_err (Geometric_w_plus_cont c) (\<lambda>w_plus_cont.
     bind_err (t_add w_plus_cont w_minus_cont) (\<lambda>s.
     t_mul grad_output (map (\<lambda>x. x / 2) s))))"

subsection \<open>StochasticCategorical\<close>

text \<open>\<^verbatim>\<open>torch.rand(1)\<close> is one draw; the returned value is the index as a float.\<close>

definition StochasticCategorical_forward :: "(nat \<Rightarrow> real) \<Rightarrow> tensor \<Rightarrow> real \<times> cat_ctx" where
  "StochasticCategorical_forward draws probs =
     (let cum_probs = cumsum probs;
          u = hd (torch_rand draws 1);
          idx_int = searchsorted cum_probs u
      in (real idx_int, \<lparr>saved_probs = probs, saved_idx = idx_int\<rparr>))"

text \<open>The upstream gradient of the scalar output is a scalar. \<^verbatim>\<open>probs[i]\<close> with \<open>i\<close>
  beyond the last position raises \<^verbatim>\<open>IndexError\<close>.\<close>

definition StochasticCategorical_backward :: "cat_ctx \<Rightarrow> real \<Rightarrow> error + tensor" where
  "StochasticCategorical_backward c grad_output =
     (let probs = saved_probs c; i = saved_idx c;
          grad_probs = zeros_like probs
      in if i = 0 then Inr grad_probs
         else
           let F_lower = sum_list (take i probs)
           in if length probs \<le> i then Inl IndexError
              else
                let w = F_lower / (probs ! i)
                in Inr (grad_probs[i := grad_output * (- w)]))"

subsection \<open>The methods as computations on the generator\<close>

text \<open>
  Every Python function can read torch's default generator, so a method body is also
  modelled as a computation on the state of that generator: it receives the state and
  returns its value, or the error it raised, together with the state it leaves behind.
  The state is the stream of uniform draws the generator has yet to produce.
  \<^item> \<open>call\<close> is a library call that does not read the generator: arithmetic,
    \<^verbatim>\<open>torch.where\<close>, \<^verbatim>\<open>torch.ones\<close>, \<^verbatim>\<open>torch.zeros_like\<close>, \<^verbatim>\<open>torch.sum\<close>,
    \<^verbatim>\<open>torch.cumsum\<close>, \<^verbatim>\<open>torch.searchsorted\<close>, \<^verbatim>\<open>torch.clamp\<close>, \<^verbatim>\<open>torch.log\<close>,
    \<^verbatim>\<open>torch.ceil\<close>, indexing.
  \<^item> \<open>torch_rand_run n\<close> is \<^verbatim>\<open>torch.rand\<close> of \<open>n\<close> elements: it returns the first \<open>n\<close>
    draws and leaves the rest of the stream.
  \<^item> \<open>then_do\<close> runs one statement after another, passing the generator on, and stops
    at the first error.
  Each \<^verbatim>\<open>backward\<close> body below is its source, statement by statement; the two
  \<^verbatim>\<open>forward\<close> bodies that call \<^verbatim>\<open>torch.rand\<close> are given in the same form.
\<close>

type_synonym gen = "nat \<Rightarrow> real"

type_synonym 'a torch = "gen \<Rightarrow> (error + 'a) \<times> gen"

definition call :: "error + 'a \<Rightarrow> 'a torch" where
  "call r s = (r, s)"

definition then_do :: "'a torch \<Rightarrow> ('a \<Rightarrow> 'b torch) \<Rightarrow> 'b torch" where
  "then_do m f s = (case m s of (Inl e, s') \<Rightarrow> (Inl e, s') | (Inr v, s') \<Rightarrow> f v s')"

definition torch_rand_run :: "nat \<Rightarrow> tensor torch" where
  "torch_rand_run n s = (Inr (torch_rand s n), \<lambda>k. s (n + k))"

definition StraightThroughBernoulli_backward_run :: "ctx \<Rightarrow> tensor \<Rightarrow> tensor torch" where
  "StraightThroughBernoulli_backward_run c grad_output =
     then_do (call (Inr (ones (length (saved_result c))))) (\<lambda>ws.
     call (t_mul grad_output ws))"

definition Bernoulli_backward_run :: "ctx \<Rightarrow> tensor \<Rightarrow> tensor torch" where
  "Bernoulli_backward_run c grad_output =
     then_do (call (Inr (map (\<lambda>x. (1 / x) / 2) (saved_p c)))) (\<lambda>w_minus.
     then_do (call (Inr (map (\<lambda>x. (1 / (1 - x)) / 2) (saved_p c)))) (\<lambda>w_plus.
     then_do (call (torch_where (map (\<lambda>r. r = 1) (saved_result c)) w_minus w_plus)) (\<lambda>ws.
     call (t_mul grad_output ws))))"

definition Binomial_backward_run ::
    "binomial_ctx \<Rightarrow> tensor \<Rightarrow> (tensor option \<times> tensor) torch" where
  "Binomial_backward_run c grad_output =
     then_do (call (t_div (bsaved_result c) (bsaved_p c))) (\<lambda>w_minus.
     then_do (call (t_sub (bsaved_n c) (bsaved_result c))) (\<lambda>n_minus_result.
     then_do (call (t_div n_minus_result (map (\<lambda>x. 1 - x) (bsaved_p c)))) (\<lambda>w_plus.
     then_do (call (torch_where_scalar (map (\<lambda>r. r > 0) (bsaved_result c)) w_minus 0)) (\<lambda>wminus_cont.
     then_do (call (broadcast2 (\<lambda>r m. r < m) (bsaved_result c) (bsaved_n c))) (\<lambda>result_lt_n.
     then_do (call (torch_where_scalar result_lt_n w_plus 0)) (\<lambda>wplus_cont.
     then_do (call (t_add wminus_cont wplus_cont)) (\<lambda>s.
     then_do (call (t_mul grad_output (map (\<lambda>x. x / 2) s))) (\<lambda>grad_p.
     call (Inr (None, grad_p))))))))))"

definition Geometric_backward_run :: "ctx \<Rightarrow> tensor \<Rightarrow> tensor torch" where
  "Geometric_backward_run c grad_output =
     then_do (call (Inr (map (\<lambda>x. 1 / x) (saved_p c)))) (\<lambda>w_plus.
     then_do (call (t_div (map (\<lambda>r. r - 1) (saved_result c)) (map (\<lambda>x. 1 - x) (saved_p c)))) (\<lambda>w_minus.
     then_do (call (torch_where (map (\<lambda>r. r > 0) (saved_result c)) w_plus (zeros_like w_plus))) (\<lambda>w_plus_cont.
     then_do (call (torch_where (map (\<lambda>r. r > 1) (saved_result c)) w_minus (zeros_like w_minus))) (\<lambda>w_minus_cont.
     then_do (call (t_add w_plus_cont w_minus_cont)) (\<lambda>s.
     call (t_mul grad_output (map (\<lambda>x. x / 2) s)))))))"

definition StochasticCategorical_backward_run :: "cat_ctx \<Rightarrow> real \<Rightarrow> tensor torch" where
  "StochasticCategorical_backward_run c grad_output =
     then_do (call (Inr (zeros_like (saved_probs c)))) (\<lambda>grad_probs.
     if saved_idx c = 0 then call (Inr grad_probs)
     else
       then_do (call (Inr (sum_list (take (saved_idx c) (saved_probs c))))) (\<lambda>F_lower.
       then_do (call (if length (saved_probs c) \<le> saved_idx c then Inl IndexError
                      else Inr (saved_probs c ! saved_idx c))) (\<lambda>probs_i.
       call (Inr (grad_probs[saved_idx c := grad_output * (- (F_lower / probs_i))])))))"

definition Geometric_forward_run :: "tensor \<Rightarrow> (tensor \<times> ctx) torch" where
  "Geometric_forward_run p0 =
     then_do (call (Inr (map (clamp (1 / 100000) (1 - 1 / 100000)) p0))) (\<lambda>p.
     then_do (torch_rand_run (length p)) (\<lambda>u.
     then_do (call (t_div (map (\<lambda>x. ln (1 - x)) u) (map (\<lambda>x. ln (1 - x)) p))) (\<lambda>q.
     then_do (call (Inr (map (\<lambda>x. real_of_int \<lceil>x\<rceil>) q))) (\<lambda>result.
     call (Inr (result, \<lparr>saved_result = result, saved_p = p\<rparr>))))))"

definition StochasticCategorical_forward_run :: "tensor \<Rightarrow> (real \<times> cat_ctx) torch" where
  "StochasticCategorical_forward_run probs =
     then_do (call (Inr (cumsum probs))) (\<lambda>cum_probs.
     then_do (torch_rand_run 1) (\<lambda>u.
     then_do (call (Inr (searchsorted cum_probs (hd u)))) (\<lambda>idx_int.
     call (Inr (real idx_int, \<lparr>saved_probs = probs, saved_idx = idx_int\<rparr>)))))"

subsection \<open>A constant stream of draws\<close>

text \<open>The generator whose every draw is \<open>x\<close>; used to run \<^verbatim>\<open>forward\<close> on concrete inputs.\<close>

definition const_draws :: "real \<Rightarrow> nat \<Rightarrow> real" where
  "const_draws x k = x"

section \<open>Helper lemmas\<close>

subsection \<open>Errors and broadcasting at equal shapes\<close>

lemma bind_err_Inr [simp]: "bind_err (Inr v) f = f v"
  by (simp add: bind_err_def)

lemma bind_err_Inl [simp]: "bind_err (Inl e) f = Inl e"
  by (simp add: bind_err_def)

lemma broadcast2_same:
  "length xs = length ys \<Longrightarrow> broadcast2 f xs ys = Inr (map2 f xs ys)"
  by (simp add: broadcast2_def)

lemma torch_where_same:
  "length c = length a \<Longrightarrow> length a = length b \<Longrightarrow>
   torch_where c a b = Inr (map2 (\<lambda>ca y. if fst ca then snd ca else y) (zip c a) b)"
  by (simp add: torch_where_def broadcast2_same)

lemma torch_where_scalar_same:
  "length c = length a \<Longrightarrow> torch_where_scalar c a s = Inr (map2 (\<lambda>b x. if b then x else s) c a)"
  by (simp add: torch_where_scalar_def broadcast2_same)

subsection \<open>Clamp and the draws\<close>

lemma clamp_bounds: "lo \<le> hi \<Longrightarrow> lo \<le> clamp lo hi x \<and> clamp lo hi x \<le> hi"
  by (simp add: clamp_def)

lemma clamp_id_iff: "lo \<le> hi \<Longrightarrow> clamp lo hi x = x \<longleftrightarrow> lo \<le> x \<and> x \<le> hi"
  by (auto simp: clamp_def min_def max_def)

lemma length_torch_rand [simp]: "length (torch_rand draws n) = n"
  by (simp add: torch_rand_def)

lemma nth_torch_rand [simp]: "k < n \<Longrightarrow> torch_rand draws n ! k = draws k"
  by (simp add: torch_rand_def)

lemma map_clamp_id_iff:
  "lo \<le> hi \<Longrightarrow> map (clamp lo hi) p = p \<longleftrightarrow> (\<forall>x\<in>set p. lo \<le> x \<and> x \<le> hi)"
  by (induction p) (auto simp: clamp_id_iff)

subsection \<open>Geometric at equal shapes\<close>

lemma Geometric_forward_eq:
  "Geometric_forward draws p0 =
     Inr (map (\<lambda>x. real_of_int \<lceil>x\<rceil>)
            (map2 (\<lambda>x y. x / y)
               (map (\<lambda>x. ln (1 - x)) (torch_rand draws (length p0)))
               (map (\<lambda>x. ln (1 - x)) (map (clamp (1 / 100000) (1 - 1 / 100000)) p0))),
          \<lparr>saved_result = map (\<lambda>x. real_of_int \<lceil>x\<rceil>)
            (map2 (\<lambda>x y. x / y)
               (map (\<lambda>x. ln (1 - x)) (torch_rand draws (length p0)))
               (map (\<lambda>x. ln (1 - x)) (map (clamp (1 / 100000) (1 - 1 / 100000)) p0))),
           saved_p = map (clamp (1 / 100000) (1 - 1 / 100000)) p0\<rparr>)"
  by (simp add: Geometric_forward_def Let_def t_div_def broadcast2_same)

lemma Geometric_w_minus_cont_same:
  assumes "length (saved_result c) = length (saved_p c)"
  shows "\<exists>wm. Geometric_w_minus_cont c = Inr wm \<and> length wm = length (saved_p c)
     \<and> (\<forall>k<length (saved_p c). wm ! k =
           (if saved_result c ! k > 1 then (saved_result c ! k - 1) / (1 - saved_p c ! k) else 0))"
  using assms
  by (simp add: Geometric_w_minus_cont_def Let_def t_div_def broadcast2_same torch_where_same zeros_like_def)

lemma Geometric_w_plus_cont_same:
  assumes "length (saved_result c) = length (saved_p c)"
  shows "\<exists>wp. Geometric_w_plus_cont c = Inr wp \<and> length wp = length (saved_p c)
     \<and> (\<forall>k<length (saved_p c). wp ! k = (if saved_result c ! k > 0 then 1 / saved_p c ! k else 0))"
  using assms
  by (simp add: Geometric_w_plus_cont_def Let_def torch_where_same zeros_like_def)

lemma Geometric_backward_same:
  assumes "length (saved_result c) = length (saved_p c)" "length g = length (saved_p c)"
  shows "\<exists>out. Geometric_backward c g = Inr out \<and> length out = length g
     \<and> (\<forall>k<length g. out ! k = g ! k *
           (((if saved_result c ! k > 0 then 1 / saved_p c ! k else 0)
             + (if saved_result c ! k > 1 then (saved_result c ! k - 1) / (1 - saved_p c ! k) else 0)) / 2))"
proof -
  from Geometric_w_minus_cont_same[OF assms(1)] obtain wm where
    wm: "Geometric_w_minus_cont c = Inr wm" "length wm = length (saved_p c)"
      "\<forall>k<length (saved_p c). wm ! k =
           (if saved_result c ! k > 1 then (saved_result c ! k - 1) / (1 - saved_p c ! k) else 0)"
    by blast
  from Geometric_w_plus_cont_same[OF assms(1)] obtain wp where
    wp: "Geometric_w_plus_cont c = Inr wp" "length wp = length (saved_p c)"
      "\<forall>k<length (saved_p c). wp ! k = (if saved_result c ! k > 0 then 1 / saved_p c ! k else 0)"
    by blast
  show ?thesis
    using wm wp assms(2)
    by (simp add: Geometric_backward_def t_add_def t_mul_def broadcast2_same)
qed

text \<open>
  For a draw strictly inside \<open>(0, 1)\<close> both logarithms are negative, the quotient is
  positive and its ceiling is an integer that is at least 1.
\<close>

lemma Geometric_forward_positive_interior:
  assumes "k < length p0" "0 < draws k" "draws k < 1"
  shows "\<exists>result c. Geometric_forward draws p0 = Inr (result, c) \<and> 1 \<le> result ! k
           \<and> result ! k \<in> \<int>"
proof -
  let ?p = "clamp (1 / 100000) (1 - 1 / 100000) (p0 ! k)"
  have "1 / 100000 \<le> ?p \<and> ?p \<le> 1 - 1 / 100000"
    by (rule clamp_bounds) simp
  then have p: "0 < 1 - ?p" "1 - ?p < 1" by linarith+
  then have lp: "ln (1 - ?p) < 0" by simp
  from assms have "0 < 1 - draws k" "1 - draws k < 1" by linarith+
  then have lu: "ln (1 - draws k) < 0" by simp
  from lp lu have "0 < ln (1 - draws k) / ln (1 - ?p)"
    by (simp add: divide_neg_neg)
  then have "1 \<le> \<lceil>ln (1 - draws k) / ln (1 - ?p)\<rceil>"
    by linarith
  then have "1 \<le> real_of_int \<lceil>ln (1 - draws k) / ln (1 - ?p)\<rceil>"
    by simp
  with assms(1) show ?thesis
    by (simp add: Geometric_forward_eq)
qed

subsection \<open>Cumulative sums and the search\<close>

lemma cumsum_from_length [simp]: "length (cumsum_from a xs) = length xs"
  by (induction xs arbitrary: a) auto

lemma cumsum_from_last: "xs \<noteq> [] \<Longrightarrow> last (cumsum_from a xs) = a + sum_list xs"
proof (induction xs arbitrary: a)
  case Nil
  then show ?case by simp
next
  case (Cons x xs)
  then show ?case by (cases xs) auto
qed

lemma searchsorted_less:
  assumes "cs \<noteq> []" "u \<le> last cs"
  shows "searchsorted cs u < length cs"
proof -
  have "last cs \<in> set cs" using assms(1) by simp
  with assms(2) have "\<exists>x\<in>set cs. \<not> (\<not> u \<le> x)" by blast
  then have "takeWhile (\<lambda>c. \<not> u \<le> c) cs \<noteq> cs"
    by (simp add: takeWhile_eq_all_conv)
  moreover have "length (takeWhile (\<lambda>c. \<not> u \<le> c) cs) \<le> length cs"
    by (rule length_takeWhile_le)
  ultimately show ?thesis
    unfolding searchsorted_def
    by (metis le_neq_implies_less length_takeWhile_le takeWhile_eq_take take_all_iff order_le_less)
qed

lemma searchsorted_first:
  assumes "searchsorted cs u < length cs"
  shows "u \<le> cs ! searchsorted cs u \<and> (\<forall>j<searchsorted cs u. \<not> u \<le> cs ! j)"
proof -
  from assms have "\<not> (\<not> u \<le> cs ! length (takeWhile (\<lambda>c. \<not> u \<le> c) cs))"
    unfolding searchsorted_def by (rule nth_length_takeWhile)
  moreover have "\<forall>j<length (takeWhile (\<lambda>c. \<not> u \<le> c) cs). \<not> u \<le> cs ! j"
    by (metis nth_mem set_takeWhileD takeWhile_nth)
  ultimately show ?thesis by (simp add: searchsorted_def)
qed

subsection \<open>Computations on the generator\<close>

text \<open>
  A chain of generator-free calls is one generator-free call, and each \<^verbatim>\<open>backward\<close> body
  is the generator-free call of the function defined above. The two \<^verbatim>\<open>forward\<close>
  bodies consume draws, and the index StochasticCategorical returns changes with them.
\<close>

lemma then_do_call: "then_do (call r) f = (case r of Inl e \<Rightarrow> call (Inl e) | Inr v \<Rightarrow> f v)"
  by (auto simp: then_do_def call_def fun_eq_iff split: sum.splits)

lemma then_do_call_Inr [simp]: "then_do (call (Inr v)) f = f v"
  by (simp add: then_do_call)

lemma then_do_call_bind: "then_do (call r) (\<lambda>v. call (f v)) = call (bind_err r f)"
  by (cases r) (simp_all add: then_do_call)

lemma broadcast2_error: "broadcast2 f xs ys = Inl e \<Longrightarrow> e = RuntimeError"
  by (auto simp: broadcast2_def split: if_splits)

lemma torch_where_error: "torch_where c a b = Inl e \<Longrightarrow> e = RuntimeError"
  by (auto simp: torch_where_def bind_err_def dest: broadcast2_error split: sum.splits)

lemma StraightThroughBernoulli_backward_run_eq:
  "StraightThroughBernoulli_backward_run c g = call (StraightThroughBernoulli_backward c g)"
  by (simp add: StraightThroughBernoulli_backward_run_def StraightThroughBernoulli_backward_def Let_def)

lemma Bernoulli_backward_run_eq:
  "Bernoulli_backward_run c g = call (Bernoulli_backward c g)"
  by (simp add: Bernoulli_backward_run_def Bernoulli_backward_def Let_def then_do_call_bind)

lemma Binomial_backward_run_eq:
  "Binomial_backward_run c g = call (Binomial_backward c g)"
  by (simp add: Binomial_backward_run_def Binomial_backward_def Let_def then_do_call bind_err_def split: sum.splits)

lemma StochasticCategorical_backward_run_eq:
  "StochasticCategorical_backward_run c g = call (StochasticCategorical_backward c g)"
  by (simp add: StochasticCategorical_backward_run_def StochasticCategorical_backward_def Let_def then_do_call)

lemma Geometric_backward_run_eq:
  "Geometric_backward_run c g = call (Geometric_backward c g)"
  by (auto simp: Geometric_backward_run_def Geometric_backward_def Geometric_w_plus_cont_def
        Geometric_w_minus_cont_def Let_def then_do_call bind_err_def t_div_def t_add_def
      dest: broadcast2_error torch_where_error split: sum.splits)

lemma Geometric_forward_run_eq:
  "Geometric_forward_run p0 s = (Geometric_forward s p0, \<lambda>k. s (length p0 + k))"
  by (simp add: Geometric_forward_run_def Geometric_forward_def Let_def then_do_def torch_rand_run_def call_def
        bind_err_def split: sum.splits)

lemma StochasticCategorical_forward_run_eq:
  "StochasticCategorical_forward_run probs s
     = (Inr (StochasticCategorical_forward s probs), \<lambda>k. s (1 + k))"
  by (simp add: StochasticCategorical_forward_run_def StochasticCategorical_forward_def Let_def
        then_do_def torch_rand_run_def call_def)

lemma forward_reads_generator:
  "fst (StochasticCategorical_forward_run [1 / 5, 3 / 10, 1 / 2] (const_draws 0))
     \<noteq> fst (StochasticCategorical_forward_run [1 / 5, 3 / 10, 1 / 2] (const_draws (3 / 5)))"
  by (simp add: StochasticCategorical_forward_run_eq StochasticCategorical_forward_def Let_def
        torch_rand_def const_draws_def cumsum_def searchsorted_def)

section \<open>Claims\<close>

subsection \<open>C1: weights of the weighted-jump Bernoulli\<close>

text \<open>
  C1. Weighted-jump Bernoulli (class \<^verbatim>\<open>Bernoulli\<close>): for every saved context whose sample has the
  shape of \<open>p\<close> and every upstream gradient \<open>g\<close> of that shape, \<^verbatim>\<open>backward\<close> returns a
  tensor of that shape that holds \<open>g / (2p)\<close> at every position where the saved sample is 1
  and \<open>g / (2(1 - p))\<close> at every position where it is 0. In particular \<open>p = [0.3]\<close>,
  sample \<open>[1]\<close> and \<open>g = [1]\<close> give \<open>[1 / 0.6]\<close>.
\<close>

theorem Bernoulli_backward_weights:
  "(\<forall>c grad_output k.
      length (saved_result c) = length (saved_p c) \<longrightarrow>
      length grad_output = length (saved_p c) \<longrightarrow>
      k < length grad_output \<longrightarrow>
      (\<exists>out. Bernoulli_backward c grad_output = Inr out \<and> length out = length grad_output
         \<and> (saved_result c ! k = 1 \<longrightarrow> out ! k = grad_output ! k / (2 * saved_p c ! k))
         \<and> (saved_result c ! k = 0 \<longrightarrow> out ! k = grad_output ! k / (2 * (1 - saved_p c ! k)))))
   \<and> Bernoulli_backward \<lparr>saved_result = [1], saved_p = [3 / 10]\<rparr> [1] = Inr [1 / (6 / 10)]"
proof (intro conjI allI impI)
  fix c :: ctx and grad_output :: tensor and k
  assume l1: "length (saved_result c) = length (saved_p c)"
    and l2: "length grad_output = length (saved_p c)"
    and k: "k < length grad_output"
  show "\<exists>out. Bernoulli_backward c grad_output = Inr out \<and> length out = length grad_output
         \<and> (saved_result c ! k = 1 \<longrightarrow> out ! k = grad_output ! k / (2 * saved_p c ! k))
         \<and> (saved_result c ! k = 0 \<longrightarrow> out ! k = grad_output ! k / (2 * (1 - saved_p c ! k)))"
    using l1 l2 k
    by (simp add: Bernoulli_backward_def Let_def torch_where_same t_mul_def broadcast2_same)
next
  show "Bernoulli_backward \<lparr>saved_result = [1], saved_p = [3 / 10]\<rparr> [1] = Inr [1 / (6 / 10)]"
    by (simp add: Bernoulli_backward_def Let_def torch_where_same t_mul_def broadcast2_same)
qed

text \<open>
  The theorem at a sample \<open>[1, 0]\<close> with \<open>p = [1/4, 1/2]\<close> and \<open>g = [3, 5]\<close>:
  \<open>3 / (2 \<cdot> 1/4) = 6\<close> and \<open>5 / (2 \<cdot> (1 - 1/2)) = 5\<close>.
\<close>

theorem Bernoulli_backward_weights_witness:
  "\<exists>out. Bernoulli_backward \<lparr>saved_result = [1, 0], saved_p = [1 / 4, 1 / 2]\<rparr> [3, 5] = Inr out
     \<and> out ! 0 = 6 \<and> out ! 1 = 5"
proof -
  let ?c = "\<lparr>saved_result = [1, 0], saved_p = [1 / 4, 1 / 2]\<rparr>"
  from Bernoulli_backward_weights
  have a: "\<And>k. length (saved_result ?c) = length (saved_p ?c) \<longrightarrow>
      length [3, 5::real] = length (saved_p ?c) \<longrightarrow>
      k < length [3, 5::real] \<longrightarrow>
      (\<exists>out. Bernoulli_backward ?c [3, 5] = Inr out \<and> length out = length [3, 5::real]
         \<and> (saved_result ?c ! k = 1 \<longrightarrow> out ! k = [3, 5] ! k / (2 * saved_p ?c ! k))
         \<and> (saved_result ?c ! k = 0 \<longrightarrow> out ! k = [3, 5] ! k / (2 * (1 - saved_p ?c ! k))))"
    by blast
  from a[of 0] a[of 1] show ?thesis by auto
qed

subsection \<open>C2: gradient of Binomial\<close>

text \<open>
  C2. Binomial: for saved tensors \<open>result\<close>, \<open>p\<close>, \<open>n\<close> and an upstream gradient \<open>g\<close> of one
  shape, \<^verbatim>\<open>backward\<close> returns \<^verbatim>\<open>None\<close> for \<open>n\<close> and, for \<open>p\<close>, the tensor
  \<open>g * ((d + u) / 2)\<close>, where \<open>d = result / p\<close> if \<open>result > 0\<close> and 0 otherwise, and
  \<open>u = (n - result) / (1 - p)\<close> if \<open>result < n\<close> and 0 otherwise. In particular \<open>n = 5\<close>,
  \<open>p = 0.4\<close>, \<open>result = 2\<close>, \<open>g = 1\<close> give the gradient 5 for \<open>p\<close>.
\<close>

theorem Binomial_backward_gradient:
 "(\<forall>c g k. length (bsaved_result c) = length (bsaved_p c) \<longrightarrow>
     length (bsaved_n c) = length (bsaved_p c) \<longrightarrow>
     length g = length (bsaved_p c) \<longrightarrow> k < length g \<longrightarrow>
   (\<exists>grad_p. Binomial_backward c g = Inr (None, grad_p) \<and> length grad_p = length g \<and>
       grad_p ! k = g ! k *
         (((if bsaved_result c ! k > 0 then bsaved_result c ! k / bsaved_p c ! k else 0)
           + (if bsaved_result c ! k < bsaved_n c ! k
              then (bsaved_n c ! k - bsaved_result c ! k) / (1 - bsaved_p c ! k) else 0)) / 2)))
  \<and> Binomial_backward \<lparr>bsaved_result = [2], bsaved_p = [2 / 5], bsaved_n = [5]\<rparr> [1] = Inr (None, [5])"
proof (intro conjI allI impI)
  fix c :: binomial_ctx and g :: tensor and k
  assume l: "length (bsaved_result c) = length (bsaved_p c)"
      "length (bsaved_n c) = length (bsaved_p c)"
      "length g = length (bsaved_p c)" "k < length g"
  then show "\<exists>grad_p. Binomial_backward c g = Inr (None, grad_p) \<and> length grad_p = length g \<and>
       grad_p ! k = g ! k *
         (((if bsaved_result c ! k > 0 then bsaved_result c ! k / bsaved_p c ! k else 0)
           + (if bsaved_result c ! k < bsaved_n c ! k
              then (bsaved_n c ! k - bsaved_result c ! k) / (1 - bsaved_p c ! k) else 0)) / 2)"
    by (simp add: Binomial_backward_def Let_def t_div_def t_sub_def t_add_def t_mul_def
          broadcast2_same torch_where_scalar_same)
next
  show "Binomial_backward \<lparr>bsaved_result = [2], bsaved_p = [2 / 5], bsaved_n = [5]\<rparr> [1] = Inr (None, [5])"
    by (simp add: Binomial_backward_def Let_def t_div_def t_sub_def t_add_def t_mul_def
          broadcast2_same torch_where_scalar_same)
qed

text \<open>
  The theorem at the two boundaries, with \<open>n = 3\<close> and \<open>p = 1/2\<close>: a sample 0 keeps only the
  upward term, \<open>1 \<cdot> (3 / (1/2)) / 2 = 3\<close>, and a sample \<open>n\<close> only the downward term,
  \<open>2 \<cdot> (3 / (1/2)) / 2 = 6\<close>.
\<close>

theorem Binomial_backward_gradient_witness:
  "\<exists>grad_p. Binomial_backward \<lparr>bsaved_result = [0, 3], bsaved_p = [1 / 2, 1 / 2], bsaved_n = [3, 3]\<rparr> [1, 2]
       = Inr (None, grad_p) \<and> grad_p ! 0 = 3 \<and> grad_p ! 1 = 6"
proof -
  let ?c = "\<lparr>bsaved_result = [0, 3], bsaved_p = [1 / 2, 1 / 2], bsaved_n = [3, 3]\<rparr>"
  have a: "\<And>k. k < 2 \<Longrightarrow> (\<exists>grad_p. Binomial_backward ?c [1, 2] = Inr (None, grad_p) \<and> length grad_p = length [1, 2::real] \<and>
       grad_p ! k = [1, 2] ! k *
         (((if bsaved_result ?c ! k > 0 then bsaved_result ?c ! k / bsaved_p ?c ! k else 0)
           + (if bsaved_result ?c ! k < bsaved_n ?c ! k
              then (bsaved_n ?c ! k - bsaved_result ?c ! k) / (1 - bsaved_p ?c ! k) else 0)) / 2))"
    using Binomial_backward_gradient [THEN conjunct1, rule_format, of ?c "[1, 2]"] by simp
  from a[of 0] a[of 1] show ?thesis by auto
qed

subsection \<open>C3: gradient of StochasticCategorical\<close>

text \<open>
  C3, as the code has it. StochasticCategorical: if the saved index \<open>i\<close> is 0,
  \<^verbatim>\<open>backward\<close> returns the zero vector of the length of \<open>probs\<close>. If \<open>0 < i < len(probs)\<close>,
  it returns a vector of that length whose entry at \<open>i\<close> is
  \<open>- g * F_lower / probs[i]\<close> with \<open>F_lower = sum(probs[0:i])\<close>, and whose every other entry is
  exactly zero; so at most one entry is non-zero. In particular \<open>probs = [0.2, 0.3, 0.5]\<close>,
  \<open>i = 2\<close>, \<open>g = 1\<close> give \<open>[0, 0, -1]\<close>.
\<close>

theorem StochasticCategorical_backward_gradient:
  "(saved_idx c = 0 \<longrightarrow>
      StochasticCategorical_backward c g = Inr (replicate (length (saved_probs c)) 0))
   \<and> (0 < saved_idx c \<and> saved_idx c < length (saved_probs c) \<longrightarrow>
        (\<exists>v. StochasticCategorical_backward c g = Inr v \<and> length v = length (saved_probs c)
           \<and> v ! saved_idx c
               = - g * sum_list (take (saved_idx c) (saved_probs c)) / (saved_probs c ! saved_idx c)
           \<and> (\<forall>j<length v. j \<noteq> saved_idx c \<longrightarrow> v ! j = 0)))
   \<and> StochasticCategorical_backward \<lparr>saved_probs = [1 / 5, 3 / 10, 1 / 2], saved_idx = 2\<rparr> 1
        = Inr [0, 0, - 1]"
  by (simp add: StochasticCategorical_backward_def zeros_like_def Let_def numeral_2_eq_2)

text \<open>
  The theorem at \<open>probs = [1/4, 3/4]\<close>, \<open>i = 1\<close>, \<open>g = 3\<close>: the entry at 1 is
  \<open>- 3 \<cdot> (1/4) / (3/4) = - 1\<close> and the entry at 0 is zero.
\<close>

theorem StochasticCategorical_backward_gradient_witness:
  "\<exists>v. StochasticCategorical_backward \<lparr>saved_probs = [1 / 4, 3 / 4], saved_idx = 1\<rparr> 3 = Inr v
     \<and> v ! 1 = - 1 \<and> v ! 0 = 0"
  using StochasticCategorical_backward_gradient
          [of "\<lparr>saved_probs = [1 / 4, 3 / 4], saved_idx = 1\<rparr>" 3]
  by auto

text \<open>
  The entry at the sampled index need not be non-zero: with an upstream gradient 0 (or
  with no probability mass below the index) the returned vector is all zeros although
  \<open>i \<noteq> 0\<close>, so ``exactly one non-zero entry'' does not hold for every \<open>g\<close>.
\<close>

theorem StochasticCategorical_backward_zero_gradient:
  "StochasticCategorical_backward \<lparr>saved_probs = [1 / 5, 3 / 10, 1 / 2], saved_idx = 2\<rparr> 0 = Inr [0, 0, 0]"
  by (simp add: StochasticCategorical_backward_def zeros_like_def Let_def numeral_2_eq_2)

subsection \<open>C4: the clamp of Geometric\<close>

text \<open>
  C4. Geometric: for every caller-supplied \<open>p\<close> (also 0 and 1) and every stream of draws,
  \<^verbatim>\<open>forward\<close> returns, and every element of the parameter it saves lies in
  \<open>[1e-5, 1 - 1e-5]\<close>; so neither divisor of \<^verbatim>\<open>backward\<close>, \<open>p\<close> and \<open>1 - p\<close>, is 0.
  Moreover, at every position where the saved sample is 1, the downward contribution
  \<^verbatim>\<open>w_minus_cont\<close> is 0 and the returned gradient is \<open>g * ((1 / p) / 2)\<close>.
\<close>

theorem Geometric_no_zero_divisor:
  "(\<exists>result c. Geometric_forward draws p0 = Inr (result, c)
       \<and> length (saved_p c) = length p0
       \<and> (\<forall>k<length p0. 1 / 100000 \<le> saved_p c ! k \<and> saved_p c ! k \<le> 1 - 1 / 100000
             \<and> saved_p c ! k \<noteq> 0 \<and> 1 - saved_p c ! k \<noteq> 0))
   \<and> (\<forall>c g k. length (saved_result c) = length (saved_p c) \<longrightarrow>
         length g = length (saved_p c) \<longrightarrow> k < length g \<longrightarrow> saved_result c ! k = 1 \<longrightarrow>
         (\<exists>wm out. Geometric_w_minus_cont c = Inr wm \<and> wm ! k = 0
             \<and> Geometric_backward c g = Inr out \<and> out ! k = g ! k * ((1 / saved_p c ! k) / 2)))"
proof (intro conjI allI impI)
  have b: "\<And>x. 1 / 100000 \<le> clamp (1 / 100000) (1 - 1 / 100000) x
             \<and> clamp (1 / 100000) (1 - 1 / 100000) x \<le> 1 - 1 / 100000"
    by (rule clamp_bounds) simp
  have "\<forall>k<length p0. 1 / 100000 \<le> clamp (1 / 100000) (1 - 1 / 100000) (p0 ! k)
          \<and> clamp (1 / 100000) (1 - 1 / 100000) (p0 ! k) \<le> 1 - 1 / 100000
          \<and> clamp (1 / 100000) (1 - 1 / 100000) (p0 ! k) \<noteq> 0
          \<and> 1 - clamp (1 / 100000) (1 - 1 / 100000) (p0 ! k) \<noteq> 0"
  proof (intro allI impI)
    fix k
    from b[of "p0 ! k"]
    show "1 / 100000 \<le> clamp (1 / 100000) (1 - 1 / 100000) (p0 ! k)
          \<and> clamp (1 / 100000) (1 - 1 / 100000) (p0 ! k) \<le> 1 - 1 / 100000
          \<and> clamp (1 / 100000) (1 - 1 / 100000) (p0 ! k) \<noteq> 0
          \<and> 1 - clamp (1 / 100000) (1 - 1 / 100000) (p0 ! k) \<noteq> 0"
      by linarith
  qed
  then show "\<exists>result c. Geometric_forward draws p0 = Inr (result, c)
       \<and> length (saved_p c) = length p0
       \<and> (\<forall>k<length p0. 1 / 100000 \<le> saved_p c ! k \<and> saved_p c ! k \<le> 1 - 1 / 100000
             \<and> saved_p c ! k \<noteq> 0 \<and> 1 - saved_p c ! k \<noteq> 0)"
    by (simp add: Geometric_forward_eq)
next
  fix c :: ctx and g :: tensor and k
  assume l: "length (saved_result c) = length (saved_p c)" "length g = length (saved_p c)"
    and k: "k < length g" and r: "saved_result c ! k = 1"
  from Geometric_w_minus_cont_same[OF l(1)] obtain wm where
    wm: "Geometric_w_minus_cont c = Inr wm"
      "\<forall>k<length (saved_p c). wm ! k =
           (if saved_result c ! k > 1 then (saved_result c ! k - 1) / (1 - saved_p c ! k) else 0)"
    by blast
  from Geometric_backward_same[OF l] obtain out where
    out: "Geometric_backward c g = Inr out"
     "\<forall>k<length g. out ! k = g ! k *
           (((if saved_result c ! k > 0 then 1 / saved_p c ! k else 0)
             + (if saved_result c ! k > 1 then (saved_result c ! k - 1) / (1 - saved_p c ! k) else 0)) / 2)"
    by blast
  from wm(2) k l have wk: "wm ! k = 0"
    by (simp add: r)
  from out(2) k have "out ! k = g ! k *
           (((if saved_result c ! k > 0 then 1 / saved_p c ! k else 0)
             + (if saved_result c ! k > 1 then (saved_result c ! k - 1) / (1 - saved_p c ! k) else 0)) / 2)"
    by blast
  then have ok: "out ! k = g ! k * ((1 / saved_p c ! k) / 2)"
    by (simp add: r)
  from wm(1) out(1) wk ok
  show "\<exists>wm out. Geometric_w_minus_cont c = Inr wm \<and> wm ! k = 0
             \<and> Geometric_backward c g = Inr out \<and> out ! k = g ! k * ((1 / saved_p c ! k) / 2)"
    by blast
qed

text \<open>
  The theorem at the caller's \<open>p = [0, 1]\<close>, and at a saved sample \<open>[1]\<close> with
  \<open>p = [1/2]\<close> and \<open>g = [3]\<close>: the gradient is \<open>3 \<cdot> (1 / (1/2)) / 2 = 3\<close>.
\<close>

theorem Geometric_no_zero_divisor_witness:
  "(\<exists>result c. Geometric_forward (const_draws 0) [0, 1] = Inr (result, c)
       \<and> saved_p c ! 0 \<noteq> 0 \<and> 1 - saved_p c ! 1 \<noteq> 0)
   \<and> (\<exists>wm out. Geometric_w_minus_cont \<lparr>saved_result = [1], saved_p = [1 / 2]\<rparr> = Inr wm \<and> wm ! 0 = 0
         \<and> Geometric_backward \<lparr>saved_result = [1], saved_p = [1 / 2]\<rparr> [3] = Inr out \<and> out ! 0 = 3)"
proof -
  from Geometric_no_zero_divisor [of "const_draws 0" "[0, 1]", THEN conjunct1]
  have a: "\<exists>result c. Geometric_forward (const_draws 0) [0, 1] = Inr (result, c)
       \<and> saved_p c ! 0 \<noteq> 0 \<and> 1 - saved_p c ! 1 \<noteq> 0"
    by fastforce
  from Geometric_no_zero_divisor [of "const_draws 0" "[0, 1]", THEN conjunct2, rule_format,
          of "\<lparr>saved_result = [1], saved_p = [1 / 2]\<rparr>" "[3]" 0]
  have b: "\<exists>wm out. Geometric_w_minus_cont \<lparr>saved_result = [1], saved_p = [1 / 2]\<rparr> = Inr wm \<and> wm ! 0 = 0
         \<and> Geometric_backward \<lparr>saved_result = [1], saved_p = [1 / 2]\<rparr> [3] = Inr out \<and> out ! 0 = 3"
    by simp
  from a b show ?thesis by blast
qed

subsection \<open>C5: the sample of Geometric at a draw of 0\<close>

text \<open>
  C5 states that for \<open>p\<close> in \<open>(0, 1)\<close> and every draw \<open>u\<close> in \<open>[0, 1)\<close> the value returned by
  Geometric's \<^verbatim>\<open>forward\<close> is an integer that is at least 1. The code at \<open>p = [1/2]\<close> and
  the draw \<open>u = 0\<close>, which \<^verbatim>\<open>torch.rand\<close> can return: \<open>log(1 - 0) = 0\<close>, the quotient is 0,
  and the returned sample is 0, outside the support of the distribution. (For a draw
  strictly between 0 and 1 the sample is at least 1: lemma
  \<open>Geometric_forward_positive_interior\<close>.)
\<close>

theorem Geometric_forward_zero_draw:
  "Geometric_forward (const_draws 0) [1 / 2] = Inr ([0], \<lparr>saved_result = [0], saved_p = [1 / 2]\<rparr>)"
  by (simp add: Geometric_forward_eq const_draws_def clamp_def torch_rand_def)

subsection \<open>C6: the index of StochasticCategorical\<close>

text \<open>
  C6. StochasticCategorical: for every non-empty \<open>probs\<close> whose entries sum to 1 and every
  draw \<open>u\<close> in \<open>[0, 1)\<close>, the index saved and returned by \<^verbatim>\<open>forward\<close> is the first position
  where \<open>u \<le> cumsum(probs)\<close>, and it is a valid index into \<open>probs\<close>:
  it is less than \<open>len(probs)\<close>.
\<close>

theorem StochasticCategorical_forward_index_valid:
  assumes "probs \<noteq> []" "sum_list probs = 1" "0 \<le> draws 0" "draws 0 < 1"
  shows "\<exists>i. StochasticCategorical_forward draws probs
               = (real i, \<lparr>saved_probs = probs, saved_idx = i\<rparr>)
           \<and> i < length probs
           \<and> draws 0 \<le> cumsum probs ! i
           \<and> (\<forall>j<i. \<not> draws 0 \<le> cumsum probs ! j)"
proof -
  let ?cs = "cumsum probs"
  have ne: "?cs \<noteq> []" using assms(1) by (cases probs) (simp_all add: cumsum_def)
  have "last ?cs = 1" using assms(1,2) by (simp add: cumsum_def cumsum_from_last)
  with assms(4) have "draws 0 \<le> last ?cs" by simp
  from searchsorted_less[OF ne this] have lt: "searchsorted ?cs (draws 0) < length ?cs" .
  then have "searchsorted ?cs (draws 0) < length probs" by (simp add: cumsum_def)
  moreover note searchsorted_first[OF lt]
  ultimately show ?thesis
    by (simp add: StochasticCategorical_forward_def Let_def torch_rand_def)
qed

text \<open>
  The theorem at \<open>probs = [0.2, 0.3, 0.5]\<close> and the draw \<open>u = 0.6\<close>.
\<close>

theorem StochasticCategorical_forward_index_valid_witness:
  "\<exists>i. StochasticCategorical_forward (const_draws (3 / 5)) [1 / 5, 3 / 10, 1 / 2]
               = (real i, \<lparr>saved_probs = [1 / 5, 3 / 10, 1 / 2], saved_idx = i\<rparr>)
           \<and> i < 3"
  using StochasticCategorical_forward_index_valid [of "[1 / 5, 3 / 10, 1 / 2]" "const_draws (3 / 5)"]
  by (auto simp: const_draws_def)

subsection \<open>C7: the straight-through weight\<close>

text \<open>
  C7. Straight-through Bernoulli: for every saved context and every upstream gradient
  \<open>g\<close> of the shape of the saved sample, \<^verbatim>\<open>backward\<close> returns \<open>g\<close> itself: the weight is
  the constant 1 at every element.
\<close>

theorem StraightThroughBernoulli_backward_identity:
  assumes "length grad_output = length (saved_result c)"
  shows "StraightThroughBernoulli_backward c grad_output = Inr grad_output"
proof -
  have "map2 (\<lambda>x y. x * y) grad_output (replicate (length grad_output) (1::real)) = grad_output"
    by (rule nth_equalityI) simp_all
  with assms show ?thesis
    by (simp add: StraightThroughBernoulli_backward_def ones_def t_mul_def broadcast2_same)
qed

theorem StraightThroughBernoulli_backward_identity_witness:
  "StraightThroughBernoulli_backward \<lparr>saved_result = [1, 0], saved_p = [3 / 10, 7 / 10]\<rparr> [5, - 2]
     = Inr [5, - 2]"
  using StraightThroughBernoulli_backward_identity
          [of "[5, - 2]" "\<lparr>saved_result = [1, 0], saved_p = [3 / 10, 7 / 10]\<rparr>"]
  by simp

subsection \<open>C8: the two Bernoulli forward functions\<close>

text \<open>
  C8. The \<^verbatim>\<open>forward\<close> functions of StraightThroughBernoulli and Bernoulli are the same
  function: on the same \<open>p\<close> and the same sampler (the same underlying draw) both return
  the sample \<^verbatim>\<open>torch.bernoulli(p)\<close> and save \<open>(result, p)\<close>.
\<close>

theorem Bernoulli_forward_identical:
  "StraightThroughBernoulli_forward bernoulli p = Bernoulli_forward bernoulli p
   \<and> Bernoulli_forward bernoulli p = (bernoulli p, \<lparr>saved_result = bernoulli p, saved_p = p\<rparr>)"
  by (simp add: StraightThroughBernoulli_forward_def Bernoulli_forward_def Let_def)

subsection \<open>C9: what forward saves\<close>

text \<open>
  C9, as the code has it. StraightThroughBernoulli, Bernoulli, Binomial and
  StochasticCategorical save exactly the sampled result (for StochasticCategorical, the
  sampled index) and the parameter tensors the caller passed, unchanged. Geometric saves
  the sampled result and the clamped parameter \<^verbatim>\<open>torch.clamp(p, 1e-5, 1 - 1e-5)\<close>, which
  is the caller's \<open>p\<close> exactly when every element of \<open>p\<close> lies in \<open>[1e-5, 1 - 1e-5]\<close>.
\<close>

theorem forward_saved_context:
  "StraightThroughBernoulli_forward bernoulli p
      = (bernoulli p, \<lparr>saved_result = bernoulli p, saved_p = p\<rparr>)
   \<and> Bernoulli_forward bernoulli p
      = (bernoulli p, \<lparr>saved_result = bernoulli p, saved_p = p\<rparr>)
   \<and> Binomial_forward sample n p
      = (sample n p, \<lparr>bsaved_result = sample n p, bsaved_p = p, bsaved_n = n\<rparr>)
   \<and> (\<exists>i. StochasticCategorical_forward draws probs
            = (real i, \<lparr>saved_probs = probs, saved_idx = i\<rparr>))
   \<and> (\<exists>result. Geometric_forward draws p
            = Inr (result, \<lparr>saved_result = result,
                            saved_p = map (clamp (1 / 100000) (1 - 1 / 100000)) p\<rparr>))
   \<and> (map (clamp (1 / 100000) (1 - 1 / 100000)) p = p
        \<longleftrightarrow> (\<forall>x\<in>set p. 1 / 100000 \<le> x \<and> x \<le> 1 - 1 / 100000))"
proof (intro conjI)
  show "map (clamp (1 / 100000) (1 - 1 / 100000)) p = p
        \<longleftrightarrow> (\<forall>x\<in>set p. 1 / 100000 \<le> x \<and> x \<le> 1 - 1 / 100000)"
    by (rule map_clamp_id_iff) simp
next
  show "\<exists>result. Geometric_forward draws p
            = Inr (result, \<lparr>saved_result = result,
                            saved_p = map (clamp (1 / 100000) (1 - 1 / 100000)) p\<rparr>)"
    by (simp add: Geometric_forward_eq)
qed (simp_all add: StraightThroughBernoulli_forward_def Bernoulli_forward_def
       Binomial_forward_def StochasticCategorical_forward_def Let_def)

text \<open>
  The theorem at \<open>p = [1/2, 1/4]\<close>, inside the clamp's range: Geometric saves \<open>p\<close> itself.
\<close>

theorem forward_saved_context_witness:
  "\<exists>result. Geometric_forward (const_draws 0) [1 / 2, 1 / 4]
       = Inr (result, \<lparr>saved_result = result, saved_p = [1 / 2, 1 / 4]\<rparr>)"
proof -
  note t = forward_saved_context [of _ "[1 / 2, 1 / 4]" _ _ "const_draws 0"]
  have h: "\<forall>x\<in>set [1 / 2, 1 / 4 :: real]. 1 / 100000 \<le> x \<and> x \<le> 1 - 1 / 100000"
    by simp
  from t h have e: "map (clamp (1 / 100000) (1 - 1 / 100000)) [1 / 2, 1 / 4] = [1 / 2, 1 / 4]"
    by blast
  from t have "\<exists>result. Geometric_forward (const_draws 0) [1 / 2, 1 / 4]
            = Inr (result, \<lparr>saved_result = result,
                            saved_p = map (clamp (1 / 100000) (1 - 1 / 100000)) [1 / 2, 1 / 4]\<rparr>)"
    by blast
  then show ?thesis unfolding e .
qed

text \<open>
  Outside that range the saved parameter is not the caller's: for the probability
  \<open>p = [1e-6]\<close> Geometric saves \<open>[1e-5]\<close>.
\<close>

theorem Geometric_forward_saves_clamped:
  "Geometric_forward (const_draws 0) [1 / 1000000]
     = Inr ([0], \<lparr>saved_result = [0], saved_p = [1 / 100000]\<rparr>)
   \<and> [1 / 100000] \<noteq> [1 / 1000000 :: real]"
  by (simp add: Geometric_forward_eq const_draws_def clamp_def torch_rand_def)

subsection \<open>C10: backward does not read the generator\<close>

text \<open>
  C10. For every operator, \<^verbatim>\<open>backward\<close> is a deterministic function of the saved context
  and the upstream gradient: two calls on equal saved tensors (sample and parameters; for
  StochasticCategorical the probabilities and the index) and equal upstream gradients
  return equal results, whatever the states \<open>s1\<close> and \<open>s2\<close> of the generator at the two
  calls; and no call draws from the generator: each leaves it in the state it found.
\<close>

theorem backward_deterministic:
  "(saved_result c1 = saved_result c2 \<and> saved_p c1 = saved_p c2 \<and> g1 = g2 \<longrightarrow>
       fst (StraightThroughBernoulli_backward_run c1 g1 s1)
         = fst (StraightThroughBernoulli_backward_run c2 g2 s2)
     \<and> fst (Bernoulli_backward_run c1 g1 s1) = fst (Bernoulli_backward_run c2 g2 s2)
     \<and> fst (Geometric_backward_run c1 g1 s1) = fst (Geometric_backward_run c2 g2 s2))
   \<and> (bsaved_result b1 = bsaved_result b2 \<and> bsaved_p b1 = bsaved_p b2
        \<and> bsaved_n b1 = bsaved_n b2 \<and> g1 = g2 \<longrightarrow>
       fst (Binomial_backward_run b1 g1 s1) = fst (Binomial_backward_run b2 g2 s2))
   \<and> (saved_probs d1 = saved_probs d2 \<and> saved_idx d1 = saved_idx d2 \<and> r1 = r2 \<longrightarrow>
       fst (StochasticCategorical_backward_run d1 r1 s1)
         = fst (StochasticCategorical_backward_run d2 r2 s2))
   \<and> snd (StraightThroughBernoulli_backward_run c1 g1 s1) = s1
   \<and> snd (Bernoulli_backward_run c1 g1 s1) = s1
   \<and> snd (Geometric_backward_run c1 g1 s1) = s1
   \<and> snd (Binomial_backward_run b1 g1 s1) = s1
   \<and> snd (StochasticCategorical_backward_run d1 r1 s1) = s1"
proof (intro conjI impI)
  assume "saved_result c1 = saved_result c2 \<and> saved_p c1 = saved_p c2 \<and> g1 = g2"
  then have e: "c1 = c2" "g1 = g2" by simp_all
  show "fst (StraightThroughBernoulli_backward_run c1 g1 s1)
         = fst (StraightThroughBernoulli_backward_run c2 g2 s2)"
    by (simp add: e StraightThroughBernoulli_backward_run_eq call_def)
  show "fst (Bernoulli_backward_run c1 g1 s1) = fst (Bernoulli_backward_run c2 g2 s2)"
    by (simp add: e Bernoulli_backward_run_eq call_def)
  show "fst (Geometric_backward_run c1 g1 s1) = fst (Geometric_backward_run c2 g2 s2)"
    by (simp add: e Geometric_backward_run_eq call_def)
next
  assume "bsaved_result b1 = bsaved_result b2 \<and> bsaved_p b1 = bsaved_p b2
        \<and> bsaved_n b1 = bsaved_n b2 \<and> g1 = g2"
  then have e: "b1 = b2" "g1 = g2" by simp_all
  show "fst (Binomial_backward_run b1 g1 s1) = fst (Binomial_backward_run b2 g2 s2)"
    by (simp add: e Binomial_backward_run_eq call_def)
next
  assume "saved_probs d1 = saved_probs d2 \<and> saved_idx d1 = saved_idx d2 \<and> r1 = r2"
  then have e: "d1 = d2" "r1 = r2" by simp_all
  show "fst (StochasticCategorical_backward_run d1 r1 s1)
         = fst (StochasticCategorical_backward_run d2 r2 s2)"
    by (simp add: e StochasticCategorical_backward_run_eq call_def)
qed (simp_all add: StraightThroughBernoulli_backward_run_eq Bernoulli_backward_run_eq
       Geometric_backward_run_eq Binomial_backward_run_eq StochasticCategorical_backward_run_eq
       call_def)

text \<open>
  The theorem at two calls on the same saved tensors and gradient, one with the generator
  about to draw 0 and one with it about to draw 1/2.
\<close>

theorem backward_deterministic_witness:
  "fst (Bernoulli_backward_run \<lparr>saved_result = [1], saved_p = [1 / 4]\<rparr> [3] (const_draws 0))
     = fst (Bernoulli_backward_run \<lparr>saved_result = [1], saved_p = [1 / 4]\<rparr> [3] (const_draws (1 / 2)))
   \<and> fst (Binomial_backward_run \<lparr>bsaved_result = [2], bsaved_p = [1 / 4], bsaved_n = [5]\<rparr> [3]
            (const_draws 0))
     = fst (Binomial_backward_run \<lparr>bsaved_result = [2], bsaved_p = [1 / 4], bsaved_n = [5]\<rparr> [3]
            (const_draws (1 / 2)))
   \<and> fst (StochasticCategorical_backward_run \<lparr>saved_probs = [1 / 4, 3 / 4], saved_idx = 1\<rparr> 3
            (const_draws 0))
     = fst (StochasticCategorical_backward_run \<lparr>saved_probs = [1 / 4, 3 / 4], saved_idx = 1\<rparr> 3
            (const_draws (1 / 2)))
   \<and> snd (Bernoulli_backward_run \<lparr>saved_result = [1], saved_p = [1 / 4]\<rparr> [3] (const_draws 0))
     = const_draws 0"
  using backward_deterministic
     [of "\<lparr>saved_result = [1], saved_p = [1 / 4]\<rparr>" "\<lparr>saved_result = [1], saved_p = [1 / 4]\<rparr>"
         "[3]" "[3]" "const_draws 0" "const_draws (1 / 2)"
         "\<lparr>bsaved_result = [2], bsaved_p = [1 / 4], bsaved_n = [5]\<rparr>"
         "\<lparr>bsaved_result = [2], bsaved_p = [1 / 4], bsaved_n = [5]\<rparr>"
         "\<lparr>saved_probs = [1 / 4, 3 / 4], saved_idx = 1\<rparr>"
         "\<lparr>saved_probs = [1 / 4, 3 / 4], saved_idx = 1\<rparr>" 3 3]
  by simp

end
